theory Spec2Isabelle
  imports Complex_Main
begin

section \<open>JavaScript values\<close>

text \<open>
  The metric fields of a sensor reading, the threshold fields of an equipment profile and
  the numeric fields of a decoded payload hold a JavaScript number or are missing
  (\<open>undefined\<close> on a freshly built object, \<open>null\<close> in a row read back from the database).
  A number is a finite double, an infinity or NaN. Finite doubles are represented by the
  real number they denote: rounding is not modelled and the two zeros are one value, taken
  as \<open>+0\<close> where a quotient by zero needs a sign. Strings, booleans and objects in a
  numeric field are outside the model.
\<close>

datatype jsnum = Fin real | PosInf | NegInf | NaN

datatype jsval = Undefined | Null | Number jsnum

text \<open>\<open>ToNumber\<close>, the coercion applied by the relational and arithmetic operators.\<close>

fun ToNumber :: "jsval \<Rightarrow> jsnum" where
  "ToNumber Undefined = NaN"
| "ToNumber Null = Fin 0"
| "ToNumber (Number n) = n"

text \<open>\<open>ToBoolean\<close>, the truthiness tested by \<open>if\<close>, \<open>&&\<close>, \<open>||\<close> and \<open>!\<close>.\<close>

fun ToBoolean :: "jsval \<Rightarrow> bool" where
  "ToBoolean Undefined = False"
| "ToBoolean Null = False"
| "ToBoolean (Number (Fin x)) = (x \<noteq> 0)"
| "ToBoolean (Number NaN) = False"
| "ToBoolean (Number PosInf) = True"
| "ToBoolean (Number NegInf) = True"

text \<open>The IEEE order on numbers: every comparison with NaN is false.\<close>

fun num_lt :: "jsnum \<Rightarrow> jsnum \<Rightarrow> bool" where
  "num_lt NaN _ = False"
| "num_lt _ NaN = False"
| "num_lt (Fin a) (Fin b) = (a < b)"
| "num_lt (Fin _) PosInf = True"
| "num_lt (Fin _) NegInf = False"
| "num_lt NegInf (Fin _) = True"
| "num_lt NegInf PosInf = True"
| "num_lt NegInf NegInf = False"
| "num_lt PosInf _ = False"

definition jsLt :: "jsval \<Rightarrow> jsval \<Rightarrow> bool" where
  "jsLt a b = num_lt (ToNumber a) (ToNumber b)"

definition jsGt :: "jsval \<Rightarrow> jsval \<Rightarrow> bool" where
  "jsGt a b = num_lt (ToNumber b) (ToNumber a)"

text \<open>\<open>a || b\<close> on values: the left operand when it is truthy, else the right one.\<close>

definition jsOr :: "jsval \<Rightarrow> jsval \<Rightarrow> jsval" where
  "jsOr a b = (if ToBoolean a then a else b)"

fun num_neg :: "jsnum \<Rightarrow> jsnum" where
  "num_neg (Fin a) = Fin (- a)"
| "num_neg PosInf = NegInf"
| "num_neg NegInf = PosInf"
| "num_neg NaN = NaN"

fun num_add :: "jsnum \<Rightarrow> jsnum \<Rightarrow> jsnum" where
  "num_add NaN _ = NaN"
| "num_add _ NaN = NaN"
| "num_add (Fin a) (Fin b) = Fin (a + b)"
| "num_add (Fin _) PosInf = PosInf"
| "num_add (Fin _) NegInf = NegInf"
| "num_add PosInf (Fin _) = PosInf"
| "num_add NegInf (Fin _) = NegInf"
| "num_add PosInf PosInf = PosInf"
| "num_add NegInf NegInf = NegInf"
| "num_add PosInf NegInf = NaN"
| "num_add NegInf PosInf = NaN"

definition num_sub :: "jsnum \<Rightarrow> jsnum \<Rightarrow> jsnum" where
  "num_sub a b = num_add a (num_neg b)"

text \<open>A product with an infinity takes the sign of the other factor; with zero it is NaN.\<close>

fun num_mul :: "jsnum \<Rightarrow> jsnum \<Rightarrow> jsnum" where
  "num_mul NaN _ = NaN"
| "num_mul _ NaN = NaN"
| "num_mul (Fin a) (Fin b) = Fin (a * b)"
| "num_mul (Fin a) PosInf = (if a = 0 then NaN else if 0 < a then PosInf else NegInf)"
| "num_mul (Fin a) NegInf = (if a = 0 then NaN else if 0 < a then NegInf else PosInf)"
| "num_mul PosInf (Fin b) = (if b = 0 then NaN else if 0 < b then PosInf else NegInf)"
| "num_mul NegInf (Fin b) = (if b = 0 then NaN else if 0 < b then NegInf else PosInf)"
| "num_mul PosInf PosInf = PosInf"
| "num_mul NegInf NegInf = PosInf"
| "num_mul PosInf NegInf = NegInf"
| "num_mul NegInf PosInf = NegInf"

fun num_div :: "jsnum \<Rightarrow> jsnum \<Rightarrow> jsnum" where
  "num_div NaN _ = NaN"
| "num_div _ NaN = NaN"
| "num_div (Fin a) (Fin b) =
     (if b \<noteq> 0 then Fin (a / b)
      else if a = 0 then NaN
      else if 0 < a then PosInf else NegInf)"
| "num_div (Fin _) PosInf = Fin 0"
| "num_div (Fin _) NegInf = Fin 0"
| "num_div PosInf (Fin b) = (if 0 \<le> b then PosInf else NegInf)"
| "num_div NegInf (Fin b) = (if 0 \<le> b then NegInf else PosInf)"
| "num_div PosInf PosInf = NaN"
| "num_div PosInf NegInf = NaN"
| "num_div NegInf PosInf = NaN"
| "num_div NegInf NegInf = NaN"

text \<open>\<open>Math.min\<close>, \<open>Math.max\<close>, \<open>Math.round\<close> and \<open>Math.floor\<close>: NaN in, NaN out.\<close>

fun Math_min :: "jsnum \<Rightarrow> jsnum \<Rightarrow> jsnum" where
  "Math_min NaN _ = NaN"
| "Math_min _ NaN = NaN"
| "Math_min a b = (if num_lt b a then b else a)"

fun Math_max :: "jsnum \<Rightarrow> jsnum \<Rightarrow> jsnum" where
  "Math_max NaN _ = NaN"
| "Math_max _ NaN = NaN"
| "Math_max a b = (if num_lt a b then b else a)"

fun Math_round :: "jsnum \<Rightarrow> jsnum" where
  "Math_round (Fin x) = Fin (of_int \<lfloor>x + 1 / 2\<rfloor>)"
| "Math_round n = n"

fun Math_floor :: "jsnum \<Rightarrow> jsnum" where
  "Math_floor (Fin x) = Fin (of_int \<lfloor>x\<rfloor>)"
| "Math_floor n = n"

section \<open>The data model (models/index.js)\<close>

text \<open>
  An Equipment row: the primary key, the name and the four thresholds. The threshold
  columns are nullable floats, so each holds a number or \<open>null\<close>.
\<close>

record equipment =
  eq_id :: string
  eq_name :: string
  maxTemperature :: jsval
  maxVibration :: jsval
  maxPressure :: jsval
  minPressure :: jsval

text \<open>
  A SensorReading row. Identifiers are natural numbers drawn from a counter, standing for
  the UUIDs the database generates; a timestamp is a number of milliseconds since the epoch.
  \<open>additionalMetrics\<close> is a JSON object, kept as its text.
\<close>

record sensorReading =
  sr_id :: nat
  sr_equipmentId :: string
  sr_timestamp :: int
  temperature :: jsval
  vibration :: jsval
  pressure :: jsval
  humidity :: jsval
  electricalCurrent :: jsval
  voltage :: jsval
  rpm :: jsval
  powerConsumption :: jsval
  additionalMetrics :: "string option"

datatype alert_type = Critical | Warning | Info

datatype alert_status = Active | Acknowledged | Resolved

text \<open>
  The \<open>message\<close> of an alert is a template literal over the values it quotes; it is kept
  as the template and its values. The \<open>metadata\<close> object has two shapes: one threshold
  (temperature, vibration) or a range (pressure).
\<close>

datatype alert_message =
    TemperatureExceeds jsval jsval
  | VibrationExceeds jsval jsval
  | PressureOutside jsval jsval jsval

datatype metadata =
    ThresholdMeta string jsval jsval nat
  | RangeMeta string jsval jsval jsval nat

fun md_sensorType :: "metadata \<Rightarrow> string" where
  "md_sensorType (ThresholdMeta s _ _ _) = s"
| "md_sensorType (RangeMeta s _ _ _ _) = s"

fun md_value :: "metadata \<Rightarrow> jsval" where
  "md_value (ThresholdMeta _ v _ _) = v"
| "md_value (RangeMeta _ v _ _ _) = v"

fun md_readingId :: "metadata \<Rightarrow> nat" where
  "md_readingId (ThresholdMeta _ _ _ i) = i"
| "md_readingId (RangeMeta _ _ _ _ i) = i"

text \<open>The object pushed on \<open>alerts\<close> by checkForAlerts, and the Alert row made of it.\<close>

record alertData =
  al_equipmentId :: string
  al_type :: alert_type
  al_title :: string
  al_message :: alert_message
  al_metadata :: metadata

record alert = alertData +
  al_id :: nat
  al_status :: alert_status

section \<open>Threshold rules (mqttService.js, checkForAlerts, lines 174-225)\<close>

text \<open>
  The first half of checkForAlerts builds the array \<open>alerts\<close> from the equipment and the
  reading; the second half (below, \<open>createAlerts\<close>) writes it to the database.
\<close>

definition temperatureAlerts :: "equipment \<Rightarrow> sensorReading \<Rightarrow> alertData list" where
  "temperatureAlerts equipment sensorReading =
     (if ToBoolean (temperature sensorReading)
         \<and> jsGt (temperature sensorReading) (maxTemperature equipment)
      then [\<lparr> al_equipmentId = eq_id equipment,
              al_type = Critical,
              al_title = ''High Temperature Alert'',
              al_message = TemperatureExceeds (temperature sensorReading) (maxTemperature equipment),
              al_metadata = ThresholdMeta ''temperature'' (temperature sensorReading)
                              (maxTemperature equipment) (sr_id sensorReading) \<rparr>]
      else [])"

definition vibrationAlerts :: "equipment \<Rightarrow> sensorReading \<Rightarrow> alertData list" where
  "vibrationAlerts equipment sensorReading =
     (if ToBoolean (vibration sensorReading)
         \<and> jsGt (vibration sensorReading) (maxVibration equipment)
      then [\<lparr> al_equipmentId = eq_id equipment,
              al_type = Warning,
              al_title = ''High Vibration Alert'',
              al_message = VibrationExceeds (vibration sensorReading) (maxVibration equipment),
              al_metadata = ThresholdMeta ''vibration'' (vibration sensorReading)
                              (maxVibration equipment) (sr_id sensorReading) \<rparr>]
      else [])"

definition pressureAlerts :: "equipment \<Rightarrow> sensorReading \<Rightarrow> alertData list" where
  "pressureAlerts equipment sensorReading =
     (if ToBoolean (pressure sensorReading)
      then (if jsGt (pressure sensorReading) (maxPressure equipment)
               \<or> jsLt (pressure sensorReading) (minPressure equipment)
            then [\<lparr> al_equipmentId = eq_id equipment,
                    al_type = Warning,
                    al_title = ''Pressure Out of Range'',
                    al_message = PressureOutside (pressure sensorReading)
                                   (minPressure equipment) (maxPressure equipment),
                    al_metadata = RangeMeta ''pressure'' (pressure sensorReading)
                                    (minPressure equipment) (maxPressure equipment)
                                    (sr_id sensorReading) \<rparr>]
            else [])
      else [])"

definition candidateAlerts :: "equipment \<Rightarrow> sensorReading \<Rightarrow> alertData list" where
  "candidateAlerts equipment sensorReading =
     temperatureAlerts equipment sensorReading
     @ vibrationAlerts equipment sensorReading
     @ pressureAlerts equipment sensorReading"

text \<open>The sensor types for which a rule fired.\<close>

definition firedSensorTypes :: "alertData list \<Rightarrow> string list" where
  "firedSensorTypes as = map (\<lambda>a. md_sensorType (al_metadata a)) as"

section \<open>Health score (routes/analytics.js and routes/equipment.js)\<close>

text \<open>
  Both route modules carry their own calculateHealthScore. \<open>readings\<close> may be missing
  (\<open>None\<close>); \<open>readings[0]\<close> is read only when the array is not empty. The score is an
  integer; \<open>x * 0.9\<close> is the product of numbers.
\<close>

definition calculateHealthScore_analytics :: "sensorReading list option \<Rightarrow> equipment \<Rightarrow> int" where
  "calculateHealthScore_analytics readings equipment =
     (case readings of
        None \<Rightarrow> 50
      | Some [] \<Rightarrow> 50
      | Some (latest # _) \<Rightarrow>
          (let score = 100;
               score = (if jsGt (temperature latest) (maxTemperature equipment) then score - 20
                        else if num_lt (num_mul (ToNumber (maxTemperature equipment)) (Fin (9 / 10)))
                                       (ToNumber (temperature latest)) then score - 10
                        else score);
               score = (if jsGt (vibration latest) (maxVibration equipment) then score - 25
                        else if num_lt (num_mul (ToNumber (maxVibration equipment)) (Fin (8 / 10)))
                                       (ToNumber (vibration latest)) then score - 10
                        else score);
               score = (if jsGt (pressure latest) (maxPressure equipment)
                           \<or> jsLt (pressure latest) (minPressure equipment) then score - 15
                        else score)
           in max 0 (min 100 score)))"

definition calculateHealthScore_equipment :: "sensorReading list option \<Rightarrow> equipment \<Rightarrow> int" where
  "calculateHealthScore_equipment readings equipment =
     (case readings of
        None \<Rightarrow> 50
      | Some [] \<Rightarrow> 50
      | Some (latest # _) \<Rightarrow>
          (let score = 100;
               score = (if jsGt (temperature latest) (maxTemperature equipment) then score - 20
                        else if num_lt (num_mul (ToNumber (maxTemperature equipment)) (Fin (9 / 10)))
                                       (ToNumber (temperature latest)) then score - 10
                        else score);
               score = (if jsGt (vibration latest) (maxVibration equipment) then score - 25
                        else if num_lt (num_mul (ToNumber (maxVibration equipment)) (Fin (8 / 10)))
                                       (ToNumber (vibration latest)) then score - 10
                        else score);
               score = (if jsGt (pressure latest) (maxPressure equipment)
                           \<or> jsLt (pressure latest) (minPressure equipment) then score - 15
                        else score)
           in max 0 (min 100 score)))"

section \<open>Failure prediction (routes/equipment.js, generatePredictions)\<close>

text \<open>
  \<open>historicalData.reduce((sum, reading) => sum + reading.temperature, 0)\<close> is a left fold
  from \<open>0\<close>; \<open>historicalData.length\<close> is the number of readings. The division is the
  JavaScript one: it never throws.
\<close>

definition avgTemperature :: "sensorReading list \<Rightarrow> jsnum" where
  "avgTemperature historicalData =
     num_div (foldl (\<lambda>sum reading. num_add sum (ToNumber (temperature reading))) (Fin 0) historicalData)
             (Fin (real (length historicalData)))"

definition avgVibration :: "sensorReading list \<Rightarrow> jsnum" where
  "avgVibration historicalData =
     num_div (foldl (\<lambda>sum reading. num_add sum (ToNumber (vibration reading))) (Fin 0) historicalData)
             (Fin (real (length historicalData)))"

text \<open>
  The object returned by generatePredictions. \<open>nextMaintenanceDate\<close> is the current date
  plus a number of days; it is kept as that number of days.
\<close>

record predictions =
  failureProbability :: jsnum
  remainingUsefulLife :: jsnum
  nextMaintenanceDate :: jsnum
  riskLevel :: string
  confidence :: nat
  factors :: "(string \<times> jsnum \<times> string) list"

definition generatePredictions :: "sensorReading list \<Rightarrow> equipment \<Rightarrow> predictions" where
  "generatePredictions historicalData equipment =
     (let tempRisk = num_div (avgTemperature historicalData) (ToNumber (maxTemperature equipment));
          vibrationRisk = num_div (avgVibration historicalData) (ToNumber (maxVibration equipment));
          failureProbability = Math_min (Fin 100) (num_mul (num_add tempRisk vibrationRisk) (Fin 50));
          riskLevel = (if num_lt (Fin 70) failureProbability then ''high''
                       else if num_lt (Fin 40) failureProbability then ''medium''
                       else ''low'');
          remainingUsefulLife =
            Math_max (Fin 1) (num_sub (Fin 365) (num_mul failureProbability (Fin (365 / 100))))
      in \<lparr> failureProbability = Math_round failureProbability,
           remainingUsefulLife = Math_round remainingUsefulLife,
           nextMaintenanceDate = Math_floor (num_mul remainingUsefulLife (Fin (8 / 10))),
           riskLevel = riskLevel,
           confidence = 85,
           factors = [(''Temperature Trend'', num_mul tempRisk (Fin 100), ''increasing''),
                      (''Vibration Pattern'', num_mul vibrationRisk (Fin 100), ''stable'')] \<rparr>)"

section \<open>The database\<close>

text \<open>
  The three tables the message handler touches, in insertion order, and the counter the
  fresh identifiers come from. Every database call succeeds: a connection failure is
  outside the model.
\<close>

record database =
  equipmentTable :: "equipment list"
  sensorReadingTable :: "sensorReading list"
  alertTable :: "alert list"
  nextId :: nat

text \<open>\<open>Equipment.findByPk(id)\<close>: the row with that primary key, \<open>null\<close> when there is none.\<close>

definition Equipment_findByPk :: "database \<Rightarrow> string \<Rightarrow> equipment option" where
  "Equipment_findByPk db k = find (\<lambda>e. eq_id e = k) (equipmentTable db)"

section \<open>Message handling (mqttService.js)\<close>

text \<open>
  The object \<open>JSON.parse\<close> makes of a payload: the fields the handler reads. A numeric
  field is a number or missing. \<open>timestamp\<close> is an ISO-8601 string, kept as the instant it
  denotes (a non-empty string is truthy, so a timestamp that is present is used);
  \<open>metrics\<close> is a JSON object, kept as its text.
\<close>

record data =
  d_value :: jsval
  d_temperature :: jsval
  d_vibration :: jsval
  d_pressure :: jsval
  d_humidity :: jsval
  d_current :: jsval
  d_voltage :: jsval
  d_power :: jsval
  d_rpm :: jsval
  d_metrics :: "string option"
  d_timestamp :: "int option"

text \<open>
  A payload is represented by the outcome of \<open>JSON.parse(message.toString())\<close>: it throws
  a SyntaxError (\<open>NotJSON\<close>) or returns an object.
\<close>

datatype message = NotJSON | Decoded data

text \<open>\<open>topic.split('/')\<close> and \<open>topicParts[i]\<close>, which is \<open>undefined\<close> out of range.\<close>

fun str_split :: "char \<Rightarrow> string \<Rightarrow> string list" where
  "str_split sep [] = [[]]"
| "str_split sep (c # cs) =
     (if c = sep then [] # str_split sep cs
      else (case str_split sep cs of
              [] \<Rightarrow> [[c]]
            | p # ps \<Rightarrow> (c # p) # ps))"

definition at_index :: "'a list \<Rightarrow> nat \<Rightarrow> 'a option" where
  "at_index xs i = (if i < length xs then Some (xs ! i) else None)"

text \<open>The sensor types of the \<open>switch\<close> in processSensorData.\<close>

definition supportedSensorTypes :: "string list" where
  "supportedSensorTypes =
     [''temperature'', ''vibration'', ''pressure'', ''humidity'', ''electrical'', ''performance'']"

text \<open>
  \<open>updateData\<close> (lines 126-154): the fields the message sets, as the assignment of them to
  a row; \<open>None\<close> is the \<open>default\<close> branch, which returns \<open>null\<close>.
\<close>

definition updateData ::
  "string \<Rightarrow> int \<Rightarrow> string option \<Rightarrow> data \<Rightarrow> (sensorReading \<Rightarrow> sensorReading) option" where
  "updateData equipmentId timestamp sensorType data =
     (if sensorType = Some ''temperature'' then
        Some (\<lambda>r. r\<lparr>sr_equipmentId := equipmentId, sr_timestamp := timestamp,
                     temperature := jsOr (d_value data) (d_temperature data)\<rparr>)
      else if sensorType = Some ''vibration'' then
        Some (\<lambda>r. r\<lparr>sr_equipmentId := equipmentId, sr_timestamp := timestamp,
                     vibration := jsOr (d_value data) (d_vibration data)\<rparr>)
      else if sensorType = Some ''pressure'' then
        Some (\<lambda>r. r\<lparr>sr_equipmentId := equipmentId, sr_timestamp := timestamp,
                     pressure := jsOr (d_value data) (d_pressure data)\<rparr>)
      else if sensorType = Some ''humidity'' then
        Some (\<lambda>r. r\<lparr>sr_equipmentId := equipmentId, sr_timestamp := timestamp,
                     humidity := jsOr (d_value data) (d_humidity data)\<rparr>)
      else if sensorType = Some ''electrical'' then
        Some (\<lambda>r. r\<lparr>sr_equipmentId := equipmentId, sr_timestamp := timestamp,
                     electricalCurrent := d_current data,
                     voltage := d_voltage data,
                     powerConsumption := d_power data\<rparr>)
      else if sensorType = Some ''performance'' then
        Some (\<lambda>r. r\<lparr>sr_equipmentId := equipmentId, sr_timestamp := timestamp,
                     rpm := d_rpm data,
                     additionalMetrics := Some (case d_metrics data of Some m \<Rightarrow> m | None \<Rightarrow> ''{}'')\<rparr>)
      else None)"

text \<open>The \<open>where\<close> clause of the findOne (lines 116-124): same equipment, within 5000 ms.\<close>

definition inWindow :: "string \<Rightarrow> int \<Rightarrow> sensorReading \<Rightarrow> bool" where
  "inWindow equipmentId timestamp r =
     (sr_equipmentId r = equipmentId
      \<and> timestamp - 5000 \<le> sr_timestamp r \<and> sr_timestamp r \<le> timestamp + 5000)"

text \<open>
  A row built by \<open>SensorReading.create\<close> before its fields are set: nothing is defined
  yet. The instance the handler goes on with keeps \<open>undefined\<close> in the fields the message
  did not set; the table row is kept the same way (a later read gives \<open>null\<close> there, which
  the alert rules treat alike: both are falsy).
\<close>

definition blankReading :: "nat \<Rightarrow> sensorReading" where
  "blankReading i =
     \<lparr> sr_id = i, sr_equipmentId = [], sr_timestamp = 0,
       temperature = Undefined, vibration = Undefined, pressure = Undefined,
       humidity = Undefined, electricalCurrent = Undefined, voltage = Undefined,
       rpm = Undefined, powerConsumption = Undefined, additionalMetrics = None \<rparr>"

text \<open>\<open>sensorReading.update(updateData)\<close> writes the row with the instance's primary key.\<close>

definition SensorReading_update ::
  "database \<Rightarrow> sensorReading \<Rightarrow> (sensorReading \<Rightarrow> sensorReading) \<Rightarrow> database" where
  "SensorReading_update db sensorReading upd =
     db\<lparr>sensorReadingTable :=
          map (\<lambda>r. if sr_id r = sr_id sensorReading then upd r else r) (sensorReadingTable db)\<rparr>"

definition SensorReading_create ::
  "database \<Rightarrow> (sensorReading \<Rightarrow> sensorReading) \<Rightarrow> database \<times> sensorReading" where
  "SensorReading_create db upd =
     (let sensorReading = upd (blankReading (nextId db))
      in (db\<lparr>sensorReadingTable := sensorReadingTable db @ [sensorReading],
              nextId := Suc (nextId db)\<rparr>, sensorReading))"

text \<open>
  Line 114: \<open>data.timestamp ? new Date(data.timestamp) : new Date()\<close>, where \<open>now\<close> is
  what \<open>new Date()\<close> reads.
\<close>

definition readingTimestamp :: "int \<Rightarrow> data \<Rightarrow> int" where
  "readingTimestamp now data = (case d_timestamp data of Some t \<Rightarrow> t | None \<Rightarrow> now)"

text \<open>
  processSensorData (lines 111-170). The result is the database after the call and the
  reading returned, \<open>None\<close> for \<open>null\<close>.
\<close>

definition processSensorData ::
  "int \<Rightarrow> database \<Rightarrow> string \<Rightarrow> string option \<Rightarrow> data \<Rightarrow> database \<times> sensorReading option" where
  "processSensorData now db equipmentId sensorType data =
     (let timestamp = readingTimestamp now data;
          found = find (inWindow equipmentId timestamp) (sensorReadingTable db)
      in case updateData equipmentId timestamp sensorType data of
           None \<Rightarrow> (db, None)
         | Some upd \<Rightarrow>
             (case found of
                Some sensorReading \<Rightarrow>
                  (SensorReading_update db sensorReading upd, Some (upd sensorReading))
              | None \<Rightarrow>
                  (let (db', sensorReading) = SensorReading_create db upd
                   in (db', Some sensorReading))))"

text \<open>
  The second half of checkForAlerts (lines 227-250): for each candidate in turn, look for
  an active alert with the same equipment, type and title, and create the alert when there
  is none. \<open>Alert.create\<close> leaves \<open>status\<close> to its default, \<open>'active'\<close>.
\<close>

definition sameKeyActive :: "alertData \<Rightarrow> alert \<Rightarrow> bool" where
  "sameKeyActive alertData a =
     (al_equipmentId a = al_equipmentId alertData
      \<and> al_type a = al_type alertData
      \<and> al_title a = al_title alertData
      \<and> al_status a = Active)"

definition Alert_create :: "database \<Rightarrow> alertData \<Rightarrow> database" where
  "Alert_create db alertData =
     db\<lparr>alertTable := alertTable db @
           [\<lparr> al_equipmentId = al_equipmentId alertData,
              al_type = al_type alertData,
              al_title = al_title alertData,
              al_message = al_message alertData,
              al_metadata = al_metadata alertData,
              al_id = nextId db,
              al_status = Active \<rparr>],
        nextId := Suc (nextId db)\<rparr>"

fun createAlerts :: "database \<Rightarrow> alertData list \<Rightarrow> database" where
  "createAlerts db [] = db"
| "createAlerts db (alertData # rest) =
     (case find (sameKeyActive alertData) (alertTable db) of
        Some existingAlert \<Rightarrow> createAlerts db rest
      | None \<Rightarrow> createAlerts (Alert_create db alertData) rest)"

definition checkForAlerts :: "database \<Rightarrow> equipment \<Rightarrow> sensorReading \<Rightarrow> database" where
  "checkForAlerts db equipment sensorReading =
     createAlerts db (candidateAlerts equipment sensorReading)"

text \<open>The two topic segments handleMessage reads: \<open>topicParts[1]\<close> and \<open>topicParts[2]\<close>.\<close>

definition topicEquipmentId :: "string \<Rightarrow> string option" where
  "topicEquipmentId topic = at_index (str_split CHR ''/'' topic) 1"

definition topicSensorType :: "string \<Rightarrow> string option" where
  "topicSensorType topic = at_index (str_split CHR ''/'' topic) 2"

text \<open>
  handleMessage (lines 79-109). The \<open>try\<close> encloses the whole body, so a payload that does
  not parse ends the call in the \<open>catch\<close>, which only logs; the call returns in every case.
  With no second topic segment the key is \<open>undefined\<close>, for which findByPk gives \<open>null\<close>.
\<close>

definition handleMessage :: "int \<Rightarrow> database \<Rightarrow> string \<Rightarrow> message \<Rightarrow> database" where
  "handleMessage now db topic message =
     (case message of
        NotJSON \<Rightarrow> db
      | Decoded data \<Rightarrow>
          (case topicEquipmentId topic of
             None \<Rightarrow> db
           | Some equipmentId \<Rightarrow>
               (case Equipment_findByPk db equipmentId of
                  None \<Rightarrow> db
                | Some equipment \<Rightarrow>
                    (case processSensorData now db equipmentId (topicSensorType topic) data of
                       (db', None) \<Rightarrow> db'
                     | (db', Some sensorReading) \<Rightarrow> checkForAlerts db' equipment sensorReading))))"

text \<open>Messages handled one after the other: each is a topic, a payload and its arrival time.\<close>

fun handleMessages :: "database \<Rightarrow> (string \<times> message \<times> int) list \<Rightarrow> database" where
  "handleMessages db [] = db"
| "handleMessages db ((topic, message, now) # rest) =
     handleMessages (handleMessage now db topic message) rest"

text \<open>The dedup key of an alert and the invariant on the Alert table.\<close>

definition alertKey :: "alert \<Rightarrow> string \<times> alert_type \<times> string" where
  "alertKey a = (al_equipmentId a, al_type a, al_title a)"

definition activeKeys :: "database \<Rightarrow> (string \<times> alert_type \<times> string) list" where
  "activeKeys db = map alertKey (filter (\<lambda>a. al_status a = Active) (alertTable db))"



section \<open>Example data\<close>

text \<open>An equipment row \<open>eq-1\<close> with the default thresholds of the model: 80, 10, 100 and 10.\<close>

definition defaultEquipment :: equipment where
  "defaultEquipment =
     \<lparr> eq_id = ''eq-1'', eq_name = ''Pump'',
       maxTemperature = Number (Fin 80), maxVibration = Number (Fin 10),
       maxPressure = Number (Fin 100), minPressure = Number (Fin 10) \<rparr>"

text \<open>The payload \<open>{value: v}\<close>: every other field is missing.\<close>

definition valueOnly :: "jsval \<Rightarrow> data" where
  "valueOnly v =
     \<lparr> d_value = v, d_temperature = Undefined, d_vibration = Undefined,
       d_pressure = Undefined, d_humidity = Undefined, d_current = Undefined,
       d_voltage = Undefined, d_power = Undefined, d_rpm = Undefined,
       d_metrics = None, d_timestamp = None \<rparr>"

text \<open>A message on \<open>sensors/eq-1/temperature\<close> with payload \<open>{value: v}\<close>, arriving at \<open>t\<close>.\<close>

definition temperatureMessage :: "real \<Rightarrow> int \<Rightarrow> string \<times> message \<times> int" where
  "temperatureMessage v t =
     (''sensors/eq-1/temperature'', Decoded (valueOnly (Number (Fin v))), t)"

text \<open>A database holding \<open>eq-1\<close> and nothing else.\<close>

definition freshDatabase :: database where
  "freshDatabase =
     \<lparr> equipmentTable = [defaultEquipment], sensorReadingTable = [], alertTable = [],
       nextId = 0 \<rparr>"

section \<open>Properties of the threshold rules\<close>

lemma num_lt_irrefl: "\<not> num_lt n n"
  by (cases n) simp_all

lemma jsGt_irrefl: "\<not> jsGt v v"
  by (simp add: jsGt_def num_lt_irrefl)

lemma jsLt_irrefl: "\<not> jsLt v v"
  by (simp add: jsLt_def num_lt_irrefl)

lemma fired_temperatureAlerts:
  "firedSensorTypes (temperatureAlerts e r) =
     (if ToBoolean (temperature r) \<and> jsGt (temperature r) (maxTemperature e)
      then [''temperature''] else [])"
  by (simp add: firedSensorTypes_def temperatureAlerts_def)

lemma fired_vibrationAlerts:
  "firedSensorTypes (vibrationAlerts e r) =
     (if ToBoolean (vibration r) \<and> jsGt (vibration r) (maxVibration e)
      then [''vibration''] else [])"
  by (simp add: firedSensorTypes_def vibrationAlerts_def)

lemma fired_pressureAlerts:
  "firedSensorTypes (pressureAlerts e r) =
     (if ToBoolean (pressure r)
         \<and> (jsGt (pressure r) (maxPressure e) \<or> jsLt (pressure r) (minPressure e))
      then [''pressure''] else [])"
  by (simp add: firedSensorTypes_def pressureAlerts_def)

lemma fired_candidateAlerts:
  "firedSensorTypes (candidateAlerts e r) =
     firedSensorTypes (temperatureAlerts e r)
     @ firedSensorTypes (vibrationAlerts e r)
     @ firedSensorTypes (pressureAlerts e r)"
  by (simp add: firedSensorTypes_def candidateAlerts_def)

lemmas fired_simps =
  fired_candidateAlerts fired_temperatureAlerts fired_vibrationAlerts fired_pressureAlerts

lemma falsy_no_temperatureAlerts: "\<not> ToBoolean (temperature r) \<Longrightarrow> temperatureAlerts e r = []"
  by (simp add: temperatureAlerts_def)

lemma falsy_no_vibrationAlerts: "\<not> ToBoolean (vibration r) \<Longrightarrow> vibrationAlerts e r = []"
  by (simp add: vibrationAlerts_def)

lemma falsy_no_pressureAlerts: "\<not> ToBoolean (pressure r) \<Longrightarrow> pressureAlerts e r = []"
  by (simp add: pressureAlerts_def)

lemma rules_read_own_metric:
  "vibrationAlerts e (r\<lparr>temperature := x\<rparr>) = vibrationAlerts e r"
  "pressureAlerts e (r\<lparr>temperature := x\<rparr>) = pressureAlerts e r"
  "temperatureAlerts e (r\<lparr>vibration := x\<rparr>) = temperatureAlerts e r"
  "pressureAlerts e (r\<lparr>vibration := x\<rparr>) = pressureAlerts e r"
  "temperatureAlerts e (r\<lparr>pressure := x\<rparr>) = temperatureAlerts e r"
  "vibrationAlerts e (r\<lparr>pressure := x\<rparr>) = vibrationAlerts e r"
  by (simp_all add: temperatureAlerts_def vibrationAlerts_def pressureAlerts_def)

text \<open>
  Claim C3, as the code has it. A temperature or vibration value equal to its maximum fires
  no alert, and a metric that is missing (\<open>undefined\<close> or \<open>null\<close>) fires no rule for that
  metric. The pressure rule is one alert for both bounds, \<open>pressure > maxPressure ||
  pressure < minPressure\<close>: a pressure equal to one bound fires no alert provided the other
  bound does not fire, which is the case on every profile whose maxPressure is not below
  its minPressure.
\<close>

theorem strict_thresholds:
  "(temperature r = maxTemperature e \<longrightarrow> ''temperature'' \<notin> set (firedSensorTypes (candidateAlerts e r)))
   \<and> (vibration r = maxVibration e \<longrightarrow> ''vibration'' \<notin> set (firedSensorTypes (candidateAlerts e r)))
   \<and> (\<not> jsLt (maxPressure e) (minPressure e) \<and> (pressure r = maxPressure e \<or> pressure r = minPressure e)
        \<longrightarrow> ''pressure'' \<notin> set (firedSensorTypes (candidateAlerts e r)))
   \<and> (temperature r \<in> {Undefined, Null} \<longrightarrow> ''temperature'' \<notin> set (firedSensorTypes (candidateAlerts e r)))
   \<and> (vibration r \<in> {Undefined, Null} \<longrightarrow> ''vibration'' \<notin> set (firedSensorTypes (candidateAlerts e r)))
   \<and> (pressure r \<in> {Undefined, Null} \<longrightarrow> ''pressure'' \<notin> set (firedSensorTypes (candidateAlerts e r)))"
proof -
  have t: "temperature r = maxTemperature e \<Longrightarrow> \<not> jsGt (temperature r) (maxTemperature e)"
    by (simp add: jsGt_irrefl)
  have v: "vibration r = maxVibration e \<Longrightarrow> \<not> jsGt (vibration r) (maxVibration e)"
    by (simp add: jsGt_irrefl)
  have p: "\<not> jsLt (maxPressure e) (minPressure e) \<Longrightarrow> pressure r = maxPressure e \<or> pressure r = minPressure e
      \<Longrightarrow> \<not> jsGt (pressure r) (maxPressure e) \<and> \<not> jsLt (pressure r) (minPressure e)"
    by (auto simp: jsGt_irrefl jsLt_irrefl) (simp_all add: jsGt_def jsLt_def)
  show ?thesis
    using t v p by (auto simp: fired_simps)
qed

text \<open>
  The profile and reading behind the proviso: maxPressure 5, minPressure 10 and a pressure
  of 10. The value equals minPressure, and the alert fires through \<open>10 > 5\<close>.
\<close>

theorem strict_thresholds_counterexample:
  "pressure ((blankReading 0)\<lparr>pressure := Number (Fin 10)\<rparr>)
     = minPressure (defaultEquipment\<lparr>maxPressure := Number (Fin 5)\<rparr>)
   \<and> ''pressure'' \<in> set (firedSensorTypes (candidateAlerts
         (defaultEquipment\<lparr>maxPressure := Number (Fin 5)\<rparr>)
         ((blankReading 0)\<lparr>pressure := Number (Fin 10)\<rparr>)))"
  by (simp add: fired_simps blankReading_def defaultEquipment_def jsGt_def jsLt_def)

theorem strict_thresholds_witness:
  "temperature ((blankReading 7)\<lparr>temperature := Number (Fin 80), vibration := Number (Fin 10),
       pressure := Number (Fin 100)\<rparr>) = maxTemperature defaultEquipment
   \<and> \<not> jsLt (maxPressure defaultEquipment) (minPressure defaultEquipment)
   \<and> firedSensorTypes (candidateAlerts defaultEquipment
        ((blankReading 7)\<lparr>temperature := Number (Fin 80), vibration := Number (Fin 10),
          pressure := Number (Fin 100)\<rparr>)) = []
   \<and> firedSensorTypes (candidateAlerts defaultEquipment
        ((blankReading 7)\<lparr>pressure := Number (Fin 10)\<rparr>)) = []
   \<and> firedSensorTypes (candidateAlerts defaultEquipment (blankReading 7)) = []"
  using strict_thresholds [of "(blankReading 7)\<lparr>temperature := Number (Fin 80),
      vibration := Number (Fin 10), pressure := Number (Fin 100)\<rparr>" defaultEquipment]
    strict_thresholds [of "(blankReading 7)\<lparr>pressure := Number (Fin 10)\<rparr>" defaultEquipment]
    strict_thresholds [of "blankReading 7" defaultEquipment]
  by (simp add: blankReading_def defaultEquipment_def jsLt_def jsGt_def fired_simps)

text \<open>
  Claim C9. The rules test the metric's truthiness before they compare, so a value of 0 is
  skipped like a missing one: a temperature, vibration or pressure of exactly 0 fires no
  rule for that metric on any profile (a pressure of 0 below a positive minPressure
  included), and the candidate alerts are those of the same reading without the metric.
\<close>

theorem zero_treated_as_absent:
  "(temperature r = Number (Fin 0) \<longrightarrow>
      ''temperature'' \<notin> set (firedSensorTypes (candidateAlerts e r))
      \<and> candidateAlerts e r = candidateAlerts e (r\<lparr>temperature := Undefined\<rparr>))
   \<and> (vibration r = Number (Fin 0) \<longrightarrow>
      ''vibration'' \<notin> set (firedSensorTypes (candidateAlerts e r))
      \<and> candidateAlerts e r = candidateAlerts e (r\<lparr>vibration := Undefined\<rparr>))
   \<and> (pressure r = Number (Fin 0) \<longrightarrow>
      ''pressure'' \<notin> set (firedSensorTypes (candidateAlerts e r))
      \<and> candidateAlerts e r = candidateAlerts e (r\<lparr>pressure := Undefined\<rparr>))"
proof (intro conjI impI)
  assume z: "temperature r = Number (Fin 0)"
  then show "''temperature'' \<notin> set (firedSensorTypes (candidateAlerts e r))"
    by (simp add: fired_simps)
  from z show "candidateAlerts e r = candidateAlerts e (r\<lparr>temperature := Undefined\<rparr>)"
    by (simp add: candidateAlerts_def falsy_no_temperatureAlerts rules_read_own_metric)
next
  assume z: "vibration r = Number (Fin 0)"
  then show "''vibration'' \<notin> set (firedSensorTypes (candidateAlerts e r))"
    by (simp add: fired_simps)
  from z show "candidateAlerts e r = candidateAlerts e (r\<lparr>vibration := Undefined\<rparr>)"
    by (simp add: candidateAlerts_def falsy_no_vibrationAlerts rules_read_own_metric)
next
  assume z: "pressure r = Number (Fin 0)"
  then show "''pressure'' \<notin> set (firedSensorTypes (candidateAlerts e r))"
    by (simp add: fired_simps)
  from z show "candidateAlerts e r = candidateAlerts e (r\<lparr>pressure := Undefined\<rparr>)"
    by (simp add: candidateAlerts_def falsy_no_pressureAlerts rules_read_own_metric)
qed

theorem zero_treated_as_absent_witness:
  "pressure ((blankReading 7)\<lparr>pressure := Number (Fin 0), temperature := Number (Fin 0),
       vibration := Number (Fin 0)\<rparr>) = Number (Fin 0)
   \<and> jsGt (minPressure defaultEquipment) (Number (Fin 0))
   \<and> candidateAlerts defaultEquipment
        ((blankReading 7)\<lparr>pressure := Number (Fin 0), temperature := Number (Fin 0),
          vibration := Number (Fin 0)\<rparr>) = []"
  using zero_treated_as_absent [of "(blankReading 7)\<lparr>pressure := Number (Fin 0),
      temperature := Number (Fin 0), vibration := Number (Fin 0)\<rparr>" defaultEquipment]
  by (simp add: blankReading_def defaultEquipment_def jsGt_def candidateAlerts_def
      temperatureAlerts_def vibrationAlerts_def pressureAlerts_def)

section \<open>The two health scores\<close>

text \<open>
  Claim C8. The calculateHealthScore of the analytics routes and the one of the equipment
  routes return the same score for every readings list (missing and empty included) and
  every equipment profile.
\<close>

theorem health_score_copies_agree:
  "calculateHealthScore_analytics readings equipment
     = calculateHealthScore_equipment readings equipment"
  by (simp add: calculateHealthScore_analytics_def calculateHealthScore_equipment_def)

section \<open>Predictions from an empty history\<close>

text \<open>
  Claim C10. With no reading in the history, both averages are \<open>0 / 0\<close>, that is NaN, for
  every equipment profile; the failure probability is NaN as well, both comparisons with it
  are false, and the function returns riskLevel \<open>low\<close> and confidence 85.
\<close>

theorem empty_history_predictions:
  "avgTemperature [] = NaN
   \<and> avgVibration [] = NaN
   \<and> failureProbability (generatePredictions [] equipment) = NaN
   \<and> riskLevel (generatePredictions [] equipment) = ''low''
   \<and> confidence (generatePredictions [] equipment) = 85"
  by (simp add: avgTemperature_def avgVibration_def generatePredictions_def Let_def)

section \<open>Unfolding rules for concrete runs\<close>

lemmas topic_defs = topicEquipmentId_def topicSensorType_def at_index_def

lemmas rule_defs =
  candidateAlerts_def temperatureAlerts_def vibrationAlerts_def pressureAlerts_def
  jsGt_def jsLt_def jsOr_def

lemmas store_defs =
  Equipment_findByPk_def processSensorData_def readingTimestamp_def updateData_def
  inWindow_def SensorReading_create_def SensorReading_update_def blankReading_def
  checkForAlerts_def sameKeyActive_def Alert_create_def Let_def

lemmas example_defs = freshDatabase_def defaultEquipment_def valueOnly_def

lemmas run_defs = handleMessage_def topic_defs store_defs rule_defs example_defs

section \<open>Dropped messages\<close>

lemma updateData_unsupported:
  "sensorType \<notin> Some ` set supportedSensorTypes \<Longrightarrow> updateData k t sensorType data = None"
  by (simp add: updateData_def supportedSensorTypes_def)



lemma processSensorData_unsupported:
  "sensorType \<notin> Some ` set supportedSensorTypes \<Longrightarrow>
     processSensorData now db k sensorType data = (db, None)"
  by (simp add: processSensorData_def Let_def updateData_unsupported)

text \<open>
  Claim C4. A message whose payload does not parse as JSON, or whose third topic segment is
  not one of temperature, vibration, pressure, humidity, electrical, performance, leaves
  the database as it was: no reading is created or updated and no alert is created.
  handleMessage returns in both cases, since it is a total function of its inputs here
  and its \<open>catch\<close> does not rethrow.
\<close>

theorem undecodable_or_unsupported_dropped:
  "message = NotJSON \<or> topicSensorType topic \<notin> Some ` set supportedSensorTypes \<Longrightarrow>
     handleMessage now db topic message = db"
  by (auto simp: handleMessage_def processSensorData_unsupported
      split: message.splits option.splits)

theorem undecodable_or_unsupported_dropped_witness:
  "handleMessage 0 freshDatabase ''sensors/eq-1/temperature'' NotJSON = freshDatabase
   \<and> topicSensorType ''sensors/eq-1/flow'' = Some ''flow''
   \<and> Some ''flow'' \<notin> Some ` set supportedSensorTypes
   \<and> handleMessage 0 freshDatabase ''sensors/eq-1/flow''
         (Decoded (valueOnly (Number (Fin 5)))) = freshDatabase"
  using undecodable_or_unsupported_dropped [of NotJSON "''sensors/eq-1/temperature''" 0 freshDatabase]
    undecodable_or_unsupported_dropped [of "Decoded (valueOnly (Number (Fin 5)))"
      "''sensors/eq-1/flow''" 0 freshDatabase]
  by (simp add: topic_defs supportedSensorTypes_def)

text \<open>
  Claim C5. When the topic names an equipment id for which there is no Equipment row,
  handleMessage leaves the database as it was: no reading, no alert and no equipment row
  is added.
\<close>

theorem unknown_equipment_dropped:
  "topicEquipmentId topic = Some k \<Longrightarrow> Equipment_findByPk db k = None \<Longrightarrow>
     handleMessage now db topic message = db"
  by (simp add: handleMessage_def split: message.splits)

theorem unknown_equipment_dropped_witness:
  "topicEquipmentId ''sensors/eq-2/temperature'' = Some ''eq-2''
   \<and> Equipment_findByPk freshDatabase ''eq-2'' = None
   \<and> handleMessage 0 freshDatabase ''sensors/eq-2/temperature''
         (Decoded (valueOnly (Number (Fin 95)))) = freshDatabase"
  using unknown_equipment_dropped [of "''sensors/eq-2/temperature''" "''eq-2''" freshDatabase 0
      "Decoded (valueOnly (Number (Fin 95)))"]
  by (simp add: topic_defs Equipment_findByPk_def example_defs)

section \<open>The alert table\<close>
















section \<open>Stored readings\<close>

lemma findByPk_key: "Equipment_findByPk db k = Some e \<Longrightarrow> eq_id e = k"
  by (auto simp: Equipment_findByPk_def find_Some_iff)

lemma processSensorData_supported:
  assumes "updateData k (readingTimestamp now data) sensorType data = Some upd"
  shows "processSensorData now db k sensorType data =
     (case find (inWindow k (readingTimestamp now data)) (sensorReadingTable db) of
        Some existing \<Rightarrow> (SensorReading_update db existing upd, Some (upd existing))
      | None \<Rightarrow>
          (db\<lparr>sensorReadingTable := sensorReadingTable db @ [upd (blankReading (nextId db))],
              nextId := Suc (nextId db)\<rparr>,
           Some (upd (blankReading (nextId db)))))"
  using assms
  by (simp add: processSensorData_def Let_def SensorReading_create_def split: option.splits)

lemma handleMessage_supported:
  assumes "topicEquipmentId topic = Some k" and "Equipment_findByPk db k = Some e"
    and "updateData k (readingTimestamp now data) (topicSensorType topic) data = Some upd"
  shows "handleMessage now db topic (Decoded data) =
     (case find (inWindow k (readingTimestamp now data)) (sensorReadingTable db) of
        Some existing \<Rightarrow> checkForAlerts (SensorReading_update db existing upd) e (upd existing)
      | None \<Rightarrow>
          checkForAlerts
            (db\<lparr>sensorReadingTable := sensorReadingTable db @ [upd (blankReading (nextId db))],
                nextId := Suc (nextId db)\<rparr>)
            e (upd (blankReading (nextId db))))"
  using assms
  by (simp add: handleMessage_def processSensorData_supported split: option.splits)




section \<open>Scenarios\<close>

lemma no_active_key_find_None:
  assumes "(al_equipmentId c, al_type c, al_title c) \<notin> set (activeKeys db)"
  shows "find (sameKeyActive c) (alertTable db) = None"
proof -
  { fix a
    assume a: "a \<in> set (alertTable db)" "sameKeyActive c a"
    then have "alertKey a \<in> set (activeKeys db)"
      by (simp add: activeKeys_def sameKeyActive_def)
    moreover have "alertKey a = (al_equipmentId c, al_type c, al_title c)"
      using a(2) by (simp add: alertKey_def sameKeyActive_def)
    ultimately have False using assms by simp
  }
  then show ?thesis by (auto simp: find_None_iff)
qed

text \<open>
  Claim C6, as the code has it. Equipment \<open>eq-1\<close> has minPressure 10, no active alert has
  the key (\<open>eq-1\<close>, warning, Pressure Out of Range), and no stored reading of \<open>eq-1\<close> lies
  within 5000 ms of the message, so that the message makes a reading of its own. Then the
  message \<open>{value: 5}\<close> on \<open>sensors/eq-1/pressure\<close> adds exactly one alert to the table:
  the warning for pressure out of range, active.
\<close>

theorem pressure_below_min_one_warning:
  assumes "Equipment_findByPk db ''eq-1'' = Some equipment"
    and "minPressure equipment = Number (Fin 10)"
    and "(''eq-1'', Warning, ''Pressure Out of Range'') \<notin> set (activeKeys db)"
    and "find (inWindow ''eq-1'' now) (sensorReadingTable db) = None"
  shows "alertTable (handleMessage now db ''sensors/eq-1/pressure''
            (Decoded (valueOnly (Number (Fin 5)))))
         = alertTable db @
           [\<lparr> al_equipmentId = ''eq-1'',
              al_type = Warning,
              al_title = ''Pressure Out of Range'',
              al_message = PressureOutside (Number (Fin 5)) (Number (Fin 10)) (maxPressure equipment),
              al_metadata = RangeMeta ''pressure'' (Number (Fin 5)) (Number (Fin 10))
                              (maxPressure equipment) (nextId db),
              al_id = Suc (nextId db),
              al_status = Active \<rparr>]"
proof -
  let ?topic = "''sensors/eq-1/pressure''"
  let ?data = "valueOnly (Number (Fin 5))"
  let ?upd = "\<lambda>r. r\<lparr>sr_equipmentId := ''eq-1'', sr_timestamp := now, pressure := Number (Fin 5)\<rparr>"
  let ?sr = "?upd (blankReading (nextId db))"
  let ?db = "db\<lparr>sensorReadingTable := sensorReadingTable db @ [?sr], nextId := Suc (nextId db)\<rparr>"
  have id: "eq_id equipment = ''eq-1''"
    using assms(1) by (rule findByPk_key)
  have k: "topicEquipmentId ?topic = Some ''eq-1''"
    by (simp add: topic_defs)
  have ts: "readingTimestamp now ?data = now"
    by (simp add: readingTimestamp_def valueOnly_def)
  have u: "updateData ''eq-1'' (readingTimestamp now ?data) (topicSensorType ?topic) ?data = Some ?upd"
    by (simp add: updateData_def topic_defs readingTimestamp_def jsOr_def valueOnly_def)
  have hm: "handleMessage now db ?topic (Decoded ?data) = checkForAlerts ?db equipment ?sr"
    using handleMessage_supported [OF k assms(1) u] assms(4) by (simp add: ts)
  have c: "candidateAlerts equipment ?sr =
      [\<lparr> al_equipmentId = ''eq-1'', al_type = Warning, al_title = ''Pressure Out of Range'',
         al_message = PressureOutside (Number (Fin 5)) (Number (Fin 10)) (maxPressure equipment),
         al_metadata = RangeMeta ''pressure'' (Number (Fin 5)) (Number (Fin 10))
                         (maxPressure equipment) (nextId db) \<rparr>]"
    by (simp add: candidateAlerts_def temperatureAlerts_def vibrationAlerts_def pressureAlerts_def
        blankReading_def jsLt_def assms(2) id)
  have n: "find (sameKeyActive
      \<lparr> al_equipmentId = ''eq-1'', al_type = Warning, al_title = ''Pressure Out of Range'',
         al_message = PressureOutside (Number (Fin 5)) (Number (Fin 10)) (maxPressure equipment),
         al_metadata = RangeMeta ''pressure'' (Number (Fin 5)) (Number (Fin 10))
                         (maxPressure equipment) (nextId db) \<rparr>) (alertTable db) = None"
    using assms(3) by (intro no_active_key_find_None) simp
  show ?thesis
    unfolding hm checkForAlerts_def c using n by (simp add: Alert_create_def)
qed

text \<open>
  Without the last condition the message is merged into the stored reading, and the rules
  run on the merged row. Here \<open>eq-1\<close> has a reading one second old with temperature 90,
  above its maximum of 80, and no alert: the pressure message creates two alerts.
\<close>

theorem pressure_scenario_counterexample:
  "Equipment_findByPk
      (freshDatabase\<lparr>sensorReadingTable :=
          [(blankReading 0)\<lparr>sr_equipmentId := ''eq-1'', sr_timestamp := 0,
             temperature := Number (Fin 90)\<rparr>], nextId := 1\<rparr>) ''eq-1''
     = Some defaultEquipment
   \<and> minPressure defaultEquipment = Number (Fin 10)
   \<and> activeKeys
      (freshDatabase\<lparr>sensorReadingTable :=
          [(blankReading 0)\<lparr>sr_equipmentId := ''eq-1'', sr_timestamp := 0,
             temperature := Number (Fin 90)\<rparr>], nextId := 1\<rparr>) = []
   \<and> map (\<lambda>a. (al_type a, al_title a, al_status a))
        (alertTable (handleMessage 1000
          (freshDatabase\<lparr>sensorReadingTable :=
              [(blankReading 0)\<lparr>sr_equipmentId := ''eq-1'', sr_timestamp := 0,
                 temperature := Number (Fin 90)\<rparr>], nextId := 1\<rparr>)
          ''sensors/eq-1/pressure'' (Decoded (valueOnly (Number (Fin 5))))))
     = [(Critical, ''High Temperature Alert'', Active),
        (Warning, ''Pressure Out of Range'', Active)]"
  by (simp add: run_defs activeKeys_def)

theorem pressure_below_min_one_warning_witness:
  "alertTable (handleMessage 0 freshDatabase ''sensors/eq-1/pressure''
       (Decoded (valueOnly (Number (Fin 5)))))
   = [\<lparr> al_equipmentId = ''eq-1'', al_type = Warning, al_title = ''Pressure Out of Range'',
        al_message = PressureOutside (Number (Fin 5)) (Number (Fin 10)) (Number (Fin 100)),
        al_metadata = RangeMeta ''pressure'' (Number (Fin 5)) (Number (Fin 10)) (Number (Fin 100)) 0,
        al_id = 1, al_status = Active \<rparr>]"
proof -
  have e: "Equipment_findByPk freshDatabase ''eq-1'' = Some defaultEquipment"
    by (simp add: Equipment_findByPk_def example_defs)
  have m: "minPressure defaultEquipment = Number (Fin 10)"
    by (simp add: defaultEquipment_def)
  have a: "(''eq-1'', Warning, ''Pressure Out of Range'') \<notin> set (activeKeys freshDatabase)"
    by (simp add: activeKeys_def freshDatabase_def)
  have f: "find (inWindow ''eq-1'' 0) (sensorReadingTable freshDatabase) = None"
    by (simp add: freshDatabase_def)
  show ?thesis
    using pressure_below_min_one_warning [OF e m a f]
    by (simp add: freshDatabase_def defaultEquipment_def)
qed

lemma checkForAlerts_temperature_only:
  assumes "vibration r = Undefined" and "pressure r = Undefined"
    and "alertTable db = [a]"
    and "al_equipmentId a = ''eq-1''" and "al_type a = Critical"
    and "al_title a = ''High Temperature Alert''" and "al_status a = Active"
  shows "checkForAlerts db defaultEquipment r = db"
proof -
  have c: "candidateAlerts defaultEquipment r = temperatureAlerts defaultEquipment r"
    using assms(1,2)
    by (simp add: candidateAlerts_def falsy_no_vibrationAlerts falsy_no_pressureAlerts)
  show ?thesis
  proof (cases "temperatureAlerts defaultEquipment r")
    case Nil
    then show ?thesis by (simp add: checkForAlerts_def c)
  next
    case (Cons x xs)
    then have x: "xs = []" "al_equipmentId x = ''eq-1''" "al_type x = Critical"
        "al_title x = ''High Temperature Alert''"
      by (auto simp: temperatureAlerts_def defaultEquipment_def split: if_splits)
    have "find (sameKeyActive x) (alertTable db) = Some a"
      using assms(3-7) x by (simp add: sameKeyActive_def)
    then show ?thesis
      using Cons x(1) by (simp add: checkForAlerts_def c)
  qed
qed

lemma temperature_step:
  assumes "equipmentTable db = [defaultEquipment]"
    and "alertTable db = [a]"
    and "al_equipmentId a = ''eq-1''" and "al_type a = Critical"
    and "al_title a = ''High Temperature Alert''" and "al_status a = Active"
    and "\<forall>r\<in>set (sensorReadingTable db). vibration r = Undefined \<and> pressure r = Undefined"
  shows "equipmentTable (handleMessage t db ''sensors/eq-1/temperature'' (Decoded (valueOnly v)))
           = [defaultEquipment]
     \<and> alertTable (handleMessage t db ''sensors/eq-1/temperature'' (Decoded (valueOnly v))) = [a]
     \<and> (\<forall>r\<in>set (sensorReadingTable
            (handleMessage t db ''sensors/eq-1/temperature'' (Decoded (valueOnly v)))).
          vibration r = Undefined \<and> pressure r = Undefined)"
proof -
  let ?topic = "''sensors/eq-1/temperature''"
  let ?upd = "\<lambda>r. r\<lparr>sr_equipmentId := ''eq-1'', sr_timestamp := t, temperature := jsOr v Undefined\<rparr>"
  have k: "topicEquipmentId ?topic = Some ''eq-1''"
    by (simp add: topic_defs)
  have e: "Equipment_findByPk db ''eq-1'' = Some defaultEquipment"
    using assms(1) by (simp add: Equipment_findByPk_def defaultEquipment_def)
  have ts: "readingTimestamp t (valueOnly v) = t"
    by (simp add: readingTimestamp_def valueOnly_def)
  have u: "updateData ''eq-1'' (readingTimestamp t (valueOnly v)) (topicSensorType ?topic)
      (valueOnly v) = Some ?upd"
    by (simp add: updateData_def topic_defs readingTimestamp_def valueOnly_def)
  note hm = handleMessage_supported [OF k e u, unfolded ts]
  show ?thesis
  proof (cases "find (inWindow ''eq-1'' t) (sensorReadingTable db)")
    case None
    let ?sr = "?upd (blankReading (nextId db))"
    let ?db = "db\<lparr>sensorReadingTable := sensorReadingTable db @ [?sr], nextId := Suc (nextId db)\<rparr>"
    have "checkForAlerts ?db defaultEquipment ?sr = ?db"
      using assms(2-6)
      by (intro checkForAlerts_temperature_only [where a = a]) (simp_all add: blankReading_def)
    then have "handleMessage t db ?topic (Decoded (valueOnly v)) = ?db"
      using hm None by simp
    then show ?thesis
      using assms by (simp add: blankReading_def)
  next
    case (Some existing)
    let ?sr = "?upd existing"
    let ?db = "SensorReading_update db existing ?upd"
    have "existing \<in> set (sensorReadingTable db)"
      using Some by (auto simp: find_Some_iff)
    then have x: "vibration ?sr = Undefined" "pressure ?sr = Undefined"
      using assms(7) by simp_all
    have "checkForAlerts ?db defaultEquipment ?sr = ?db"
      using assms(2-6) x
      by (intro checkForAlerts_temperature_only [where a = a])
        (simp_all add: SensorReading_update_def)
    then have "handleMessage t db ?topic (Decoded (valueOnly v)) = ?db"
      using hm Some by simp
    then show ?thesis
      using assms by (auto simp: SensorReading_update_def)
  qed
qed

text \<open>
  Claim C2, as the code has it. On a database holding only the equipment (maxTemperature
  80), the readings 82, 83, 81, 79, 78, 77 arrive in this order at any times. The first
  one creates an active critical temperature alert. None of the later ones creates another
  alert or touches that one: after 79, 78 and 77 it is still the only alert and still
  active. The handler has no step that resolves an alert.
\<close>

theorem temperature_stream_alert_stays_active:
  "alertTable (handleMessages freshDatabase [temperatureMessage 82 t1])
     = [\<lparr> al_equipmentId = ''eq-1'', al_type = Critical, al_title = ''High Temperature Alert'',
          al_message = TemperatureExceeds (Number (Fin 82)) (Number (Fin 80)),
          al_metadata = ThresholdMeta ''temperature'' (Number (Fin 82)) (Number (Fin 80)) 0,
          al_id = 1, al_status = Active \<rparr>]
   \<and> alertTable (handleMessages freshDatabase
        [temperatureMessage 82 t1, temperatureMessage 83 t2, temperatureMessage 81 t3,
         temperatureMessage 79 t4, temperatureMessage 78 t5, temperatureMessage 77 t6])
     = [\<lparr> al_equipmentId = ''eq-1'', al_type = Critical, al_title = ''High Temperature Alert'',
          al_message = TemperatureExceeds (Number (Fin 82)) (Number (Fin 80)),
          al_metadata = ThresholdMeta ''temperature'' (Number (Fin 82)) (Number (Fin 80)) 0,
          al_id = 1, al_status = Active \<rparr>]"
proof -
  let ?a = "\<lparr> al_equipmentId = ''eq-1'', al_type = Critical, al_title = ''High Temperature Alert'',
          al_message = TemperatureExceeds (Number (Fin 82)) (Number (Fin 80)),
          al_metadata = ThresholdMeta ''temperature'' (Number (Fin 82)) (Number (Fin 80)) 0,
          al_id = 1, al_status = Active \<rparr>"
  let ?T = "''sensors/eq-1/temperature''"
  let ?J = "\<lambda>db. equipmentTable db = [defaultEquipment] \<and> alertTable db = [?a]
      \<and> (\<forall>r\<in>set (sensorReadingTable db). vibration r = Undefined \<and> pressure r = Undefined)"
  define db1 where "db1 = handleMessage t1 freshDatabase ?T (Decoded (valueOnly (Number (Fin 82))))"
  define db2 where "db2 = handleMessage t2 db1 ?T (Decoded (valueOnly (Number (Fin 83))))"
  define db3 where "db3 = handleMessage t3 db2 ?T (Decoded (valueOnly (Number (Fin 81))))"
  define db4 where "db4 = handleMessage t4 db3 ?T (Decoded (valueOnly (Number (Fin 79))))"
  define db5 where "db5 = handleMessage t5 db4 ?T (Decoded (valueOnly (Number (Fin 78))))"
  define db6 where "db6 = handleMessage t6 db5 ?T (Decoded (valueOnly (Number (Fin 77))))"
  have step: "?J db \<Longrightarrow> ?J (handleMessage t db ?T (Decoded (valueOnly v)))" for db t v
    using temperature_step [of db ?a t v] by simp
  have j1: "?J db1"
    unfolding db1_def by (simp add: run_defs)
  have j2: "?J db2" unfolding db2_def using j1 by (rule step)
  have j3: "?J db3" unfolding db3_def using j2 by (rule step)
  have j4: "?J db4" unfolding db4_def using j3 by (rule step)
  have j5: "?J db5" unfolding db5_def using j4 by (rule step)
  have j6: "?J db6" unfolding db6_def using j5 by (rule step)
  have "handleMessages freshDatabase [temperatureMessage 82 t1] = db1"
    by (simp add: temperatureMessage_def db1_def)
  moreover have "handleMessages freshDatabase
        [temperatureMessage 82 t1, temperatureMessage 83 t2, temperatureMessage 81 t3,
         temperatureMessage 79 t4, temperatureMessage 78 t5, temperatureMessage 77 t6] = db6"
    by (simp add: temperatureMessage_def db1_def db2_def db3_def db4_def db5_def db6_def)
  ultimately show ?thesis using j1 j6 by simp
qed

text \<open>
  The stream at one reading a second: after the three readings below 80 the status of the
  alert is \<open>Active\<close>, not \<open>Resolved\<close>.
\<close>

theorem hysteresis_scenario_counterexample:
  "map al_status (alertTable (handleMessages freshDatabase
        [temperatureMessage 82 0, temperatureMessage 83 1000, temperatureMessage 81 2000,
         temperatureMessage 79 3000, temperatureMessage 78 4000, temperatureMessage 77 5000]))
     = [Active]"
  by (simp add: temperatureMessage_def run_defs)

end
